theory Spec2Isabelle
  imports Complex_Main "HOL-Library.Word" "HOL-Library.Sublist"
begin

section \<open>Strings as the Go code uses them\<close>

text \<open>
  A Go \<open>string\<close> is a byte sequence; \<open>len\<close>, slicing and comparison work on bytes.
  It is modelled as \<^typ>\<open>string\<close> (a list of 8-bit characters).
\<close>

text \<open>\<open>strings.HasPrefix(s, p)\<close>.\<close>

definition HasPrefix :: "string \<Rightarrow> string \<Rightarrow> bool" where
  "HasPrefix s p = (take (length p) s = p)"

text \<open>\<open>strings.Contains(s, sub)\<close>: \<open>sub\<close> occurs in \<open>s\<close> as a contiguous run of bytes.\<close>

fun strings_Contains :: "string \<Rightarrow> string \<Rightarrow> bool" where
  "strings_Contains [] sub = (sub = [])"
| "strings_Contains (c # cs) sub = (HasPrefix (c # cs) sub \<or> strings_Contains cs sub)"

text \<open>
  \<open>strings.ToLower\<close> on the bytes of a string. An ASCII capital becomes its small letter.
  Two letters beyond ASCII become ASCII letters: the Kelvin sign U+212A (bytes E2 84 AA)
  becomes \<open>k\<close>, and the dotted capital I U+0130 (bytes C4 B0) becomes \<open>i\<close>. Every other
  letter beyond ASCII is mapped by the library to a letter beyond ASCII again; its bytes
  are left as they are here, which no check of the collector tells apart (they compare
  against ASCII patterns only).
\<close>

definition lower_char :: "char \<Rightarrow> char" where
  "lower_char c =
     (if (65::nat) \<le> of_char c \<and> (of_char c :: nat) \<le> 90 then char_of ((of_char c :: nat) + 32) else c)"

fun ToLower :: "string \<Rightarrow> string" where
  "ToLower [] = []"
| "ToLower (c # cs) =
     (if c = CHR 0xE2 \<and> take 2 cs = [CHR 0x84, CHR 0xAA] then CHR ''k'' # ToLower (drop 2 cs)
      else if c = CHR 0xC4 \<and> take 1 cs = [CHR 0xB0] then CHR ''i'' # ToLower (drop 1 cs)
      else lower_char c # ToLower cs)"

text \<open>\<open>strings.Split(s, sep)\<close> for a one-byte separator: always at least one part.\<close>

fun strings_Split :: "string \<Rightarrow> char \<Rightarrow> string list" where
  "strings_Split [] sep = [[]]"
| "strings_Split (c # cs) sep =
     (if c = sep then [] # strings_Split cs sep
      else (case strings_Split cs sep of
              [] \<Rightarrow> [[c]]
            | p # ps \<Rightarrow> (c # p) # ps))"

text \<open>\<open>strings.Count(s, "@")\<close> for a one-byte pattern.\<close>

definition strings_Count :: "string \<Rightarrow> char \<Rightarrow> nat" where
  "strings_Count s c = length (filter (\<lambda>x. x = c) s)"

section \<open>Metrics-Collector: types\<close>

text \<open>
  \<open>types.Metric\<close>. \<open>Labels\<close> is a Go \<open>map[string]string\<close>, given by its entries (the keys
  are distinct; the order of the entries is the order in which a \<open>range\<close> loop happens
  to visit them). \<open>Timestamp\<close> is an \<open>int64\<close> of Unix seconds, far from its bounds.
\<close>

type_synonym labels = "(string \<times> string) list"

record Metric =
  Service :: string
  Timestamp :: int
  Name :: string
  Value :: real
  Labels :: labels
  Type :: string

definition MetricTypeCounter :: string where "MetricTypeCounter = ''counter''"
definition MetricTypeGauge :: string where "MetricTypeGauge = ''gauge''"
definition MetricTypeHistogram :: string where "MetricTypeHistogram = ''histogram''"
definition MetricTypeSummary :: string where "MetricTypeSummary = ''summary''"

definition MaxLabelKeyLength :: nat where "MaxLabelKeyLength = 128"
definition MaxLabelValueLength :: nat where "MaxLabelValueLength = 256"
definition MaxLabelsPerMetric :: nat where "MaxLabelsPerMetric = 20"
definition MaxMetricNameLength :: nat where "MaxMetricNameLength = 256"

text \<open>\<open>types.StoredMetric\<close>, one row of the hypertable.\<close>

record StoredMetric =
  sm_Time :: int
  sm_Service :: string
  sm_MetricName :: string
  sm_MetricType :: string
  sm_Value :: real
  sm_Labels :: labels
  sm_InsertedAt :: int

section \<open>Metrics-Collector: time-series storage (storage/timescaledb.go)\<close>

text \<open>
  \<open>TimescaleDBStorage\<close>: the connection pool is represented by the rows of the
  \<open>metrics\<close> table it writes to; the two counters are \<open>uint64\<close>.
\<close>

record TimescaleDBStorage =
  rows :: "StoredMetric list"
  ts_metricsStored :: "64 word"
  ts_metricsFailures :: "64 word"

text \<open>
  What the database does on one call of \<open>executeInsert\<close>: the step that fails, with the
  text of the driver's error, or success.
\<close>

datatype insert_outcome =
    InsertOK
  | MarshalFails string
  | BeginFails string
  | ExecFails string
  | CommitFails string

text \<open>
  The error \<open>executeInsert\<close> returns: the driver's error wrapped by \<open>fmt.Errorf\<close> with the
  name of the failing step, or \<open>None\<close> for \<open>nil\<close>.
\<close>

fun executeInsert_error :: "insert_outcome \<Rightarrow> string option" where
  "executeInsert_error InsertOK = None"
| "executeInsert_error (MarshalFails e) = Some (''failed to marshal labels: '' @ e)"
| "executeInsert_error (BeginFails e) = Some (''failed to begin transaction: '' @ e)"
| "executeInsert_error (ExecFails e) = Some (''insert failed: '' @ e)"
| "executeInsert_error (CommitFails e) = Some (''failed to commit transaction: '' @ e)"

text \<open>
  \<open>executeInsert\<close>: the row is in the table only when the transaction committed (the
  deferred rollback undoes an insert whose commit failed).
\<close>

definition executeInsert :: "insert_outcome \<Rightarrow> StoredMetric \<Rightarrow> TimescaleDBStorage
    \<Rightarrow> string option \<times> TimescaleDBStorage" where
  "executeInsert out sm s =
     (case executeInsert_error out of
        None \<Rightarrow> (None, s\<lparr>rows := rows s @ [sm]\<rparr>)
      | Some e \<Rightarrow> (Some e, s))"

text \<open>
  \<open>contains\<close>, the recursive helper of timescaledb.go:
  \<^verbatim>\<open>len(s) >= len(substr) && (s == substr ||
      len(s) > len(substr) && (contains(s[1:], substr) || s[:len(substr)] == substr))\<close>
\<close>

function contains :: "string \<Rightarrow> string \<Rightarrow> bool" where
  "contains s substr =
     (if length s \<ge> length substr then
        (if s = substr then True
         else if length s > length substr then
           (if contains (tl s) substr then True else take (length substr) s = substr)
         else False)
      else False)"
  by pat_completeness auto
termination
  by (relation "measure (\<lambda>(s, substr). length s)") auto

definition retryablePatterns :: "string list" where
  "retryablePatterns =
     [''connection refused'', ''connection reset'', ''broken pipe'',
      ''deadlock'', ''timeout'', ''too many connections'']"

text \<open>\<open>isRetryableError\<close> on a non-nil error, given by its text.\<close>

fun matches_any :: "string \<Rightarrow> string list \<Rightarrow> bool" where
  "matches_any errStr [] = False"
| "matches_any errStr (pattern # ps) = (if contains errStr pattern then True else matches_any errStr ps)"

definition isRetryableError :: "string \<Rightarrow> bool" where
  "isRetryableError errStr = matches_any errStr retryablePatterns"

definition incrementStoredCount :: "TimescaleDBStorage \<Rightarrow> TimescaleDBStorage" where
  "incrementStoredCount s = s\<lparr>ts_metricsStored := ts_metricsStored s + 1\<rparr>"

definition incrementFailureCount :: "TimescaleDBStorage \<Rightarrow> TimescaleDBStorage" where
  "incrementFailureCount s = s\<lparr>ts_metricsFailures := ts_metricsFailures s + 1\<rparr>"

text \<open>
  What one call of \<open>StoreMetric\<close> did besides its result: how many times it called
  \<open>executeInsert\<close>, and the durations (in milliseconds) it slept, in order.
\<close>

record store_trace =
  attempts :: nat
  sleeps :: "nat list"

definition maxRetries :: nat where "maxRetries = 3"

text \<open>
  The retry loop of \<open>(*TimescaleDBStorage).StoreMetric\<close>,
  \<^verbatim>\<open>for attempt := 0; attempt < maxRetries; attempt++\<close>. The database's answer to the
  attempt numbered \<open>attempt\<close> is \<open>db attempt\<close>.
\<close>

function store_loop :: "(nat \<Rightarrow> insert_outcome) \<Rightarrow> StoredMetric \<Rightarrow> nat \<Rightarrow> store_trace
    \<Rightarrow> TimescaleDBStorage \<Rightarrow> string option \<times> store_trace \<times> TimescaleDBStorage" where
  "store_loop db sm attempt tr s =
     (if attempt < maxRetries then
        (let (err, s1) = executeInsert (db attempt) sm s;
             tr1 = tr\<lparr>attempts := attempts tr + 1\<rparr>
         in case err of
              None \<Rightarrow> (None, tr1, incrementStoredCount s1)
            | Some e \<Rightarrow>
                if \<not> isRetryableError e then
                  (Some (''non-retryable error storing metric: '' @ e), tr1, incrementFailureCount s1)
                else
                  store_loop db sm (attempt + 1)
                    (if attempt < maxRetries - 1
                     then tr1\<lparr>sleeps := sleeps tr1 @ [(attempt + 1) * 100]\<rparr>
                     else tr1)
                    s1)
      else (Some ''failed to store metric after 3 attempts'', tr, incrementFailureCount s))"
  by pat_completeness auto
termination
  by (relation "measure (\<lambda>(db, sm, attempt, tr, s). maxRetries - attempt)") auto

definition ts_StoreMetric :: "(nat \<Rightarrow> insert_outcome) \<Rightarrow> int \<Rightarrow> Metric \<Rightarrow> TimescaleDBStorage
    \<Rightarrow> string option \<times> store_trace \<times> TimescaleDBStorage" where
  "ts_StoreMetric db now metric s =
     (let storedMetric = \<lparr>sm_Time = Timestamp metric, sm_Service = Service metric,
            sm_MetricName = Name metric, sm_MetricType = Type metric,
            sm_Value = Value metric, sm_Labels = Labels metric, sm_InsertedAt = now\<rparr>
      in store_loop db storedMetric 0 \<lparr>attempts = 0, sleeps = []\<rparr> s)"

section \<open>Metrics-Collector: the global storage instance (package storage)\<close>

text \<open>
  The state of the collector process: the three counters of package \<open>mqtt\<close> (\<open>uint64\<close>) and
  the global \<open>storageInstance\<close>, \<open>None\<close> while it is \<open>nil\<close>.
\<close>

record collector =
  metricsReceived :: "64 word"
  metricsRejected :: "64 word"
  metricsStored :: "64 word"
  storageInstance :: "TimescaleDBStorage option"

definition StoreMetric :: "(nat \<Rightarrow> insert_outcome) \<Rightarrow> int \<Rightarrow> Metric \<Rightarrow> collector
    \<Rightarrow> string option \<times> store_trace \<times> collector" where
  "StoreMetric db now metric st =
     (case storageInstance st of
        None \<Rightarrow> (Some ''storage not initialized'', \<lparr>attempts = 0, sleeps = []\<rparr>, st)
      | Some s \<Rightarrow>
          (let (err, tr, s') = ts_StoreMetric db now metric s
           in (err, tr, st\<lparr>storageInstance := Some s'\<rparr>)))"

text \<open>
  \<open>storage.HealthCheck\<close>; \<open>ping\<close> is what \<open>pool.Ping\<close> returns (\<open>None\<close> for \<open>nil\<close>).
\<close>

definition HealthCheck :: "string option \<Rightarrow> collector \<Rightarrow> string option" where
  "HealthCheck ping st =
     (case storageInstance st of
        None \<Rightarrow> None
      | Some s \<Rightarrow> ping)"

text \<open>The number of rows in the time-series table (none without a storage instance).\<close>

definition persisted :: "collector \<Rightarrow> StoredMetric list" where
  "persisted st = (case storageInstance st of None \<Rightarrow> [] | Some s \<Rightarrow> rows s)"

section \<open>Metrics-Collector: health endpoint (package handlers)\<close>

definition GetStatistics :: "collector \<Rightarrow> 64 word \<times> 64 word \<times> 64 word" where
  "GetStatistics st = (metricsReceived st, metricsRejected st, metricsStored st)"

record health =
  h_Status :: string
  h_Service :: string
  h_Checks :: "string \<rightharpoonup> string"

datatype health_result = MethodNotAllowed | HealthJSON nat health

definition HealthHandler :: "string option \<Rightarrow> string \<Rightarrow> collector \<Rightarrow> health_result" where
  "HealthHandler ping method st =
     (if method \<noteq> ''GET'' then MethodNotAllowed
      else
        let health0 = \<lparr>h_Status = ''healthy'', h_Service = ''metrics-collector'', h_Checks = Map.empty\<rparr>;
            health1 = (case HealthCheck ping st of
                         Some err \<Rightarrow> health0\<lparr>h_Status := ''degraded'',
                                        h_Checks := (h_Checks health0)(''database'' \<mapsto> ''unavailable'')\<rparr>
                       | None \<Rightarrow> health0\<lparr>h_Checks := (h_Checks health0)(''database'' \<mapsto> ''healthy'')\<rparr>);
            (received, rejected, stored) = GetStatistics st;
            health2 = (if received > 0 \<and> rejected = received
                       then health1\<lparr>h_Status := ''degraded'',
                              h_Checks := (h_Checks health1)(''mqtt'' \<mapsto> ''all metrics rejected'')\<rparr>
                       else health1\<lparr>h_Checks := (h_Checks health1)(''mqtt'' \<mapsto> ''healthy'')\<rparr>)
        in HealthJSON (if h_Status health2 \<noteq> ''healthy'' then 503 else 200) health2)"

text \<open>The database entry of the checks a health response carries.\<close>

definition database_check :: "health_result \<Rightarrow> string option" where
  "database_check r = (case r of MethodNotAllowed \<Rightarrow> None | HealthJSON code h \<Rightarrow> h_Checks h ''database'')"

section \<open>Metrics-Collector: MQTT subscriber (package mqtt)\<close>

datatype validation_error =
    InvalidMetricNameLength nat
  | ForbiddenLabelKey string
  | LabelKeyContainsForbidden string
  | TooManyLabels nat
  | LabelKeyTooLong string
  | LabelValueTooLong string
  | LabelValueLooksLikeEmail
  | LabelValueLooksLikeSSHKey
  | InvalidMetricType string

text \<open>
  Modelled from the spec: the constants \<open>types.ForbiddenLabelEmail\<close>, \<open>...Password\<close>,
  \<open>...SSHKey\<close>, \<open>...EmailHash\<close>, \<open>...UserID\<close> and \<open>...Username\<close> that \<open>validateMetric\<close>
  lists are declared in no source file at hand; the specification gives the forbidden set
  as \<open>{email, password, ssh_key, email_hash, user_id, username}\<close>.
\<close>

definition forbiddenKeys :: "string list" where
  "forbiddenKeys = [''email'', ''password'', ''ssh_key'', ''email_hash'', ''user_id'', ''username'']"

text \<open>The inner loop of the forbidden-label check: \<^verbatim>\<open>for key := range m.Labels\<close>.\<close>

fun check_keys_contain :: "string \<Rightarrow> labels \<Rightarrow> validation_error option" where
  "check_keys_contain forbidden [] = None"
| "check_keys_contain forbidden ((key, v) # ls) =
     (if strings_Contains (ToLower key) forbidden then Some (LabelKeyContainsForbidden forbidden)
      else check_keys_contain forbidden ls)"

text \<open>The outer loop: \<^verbatim>\<open>for _, forbidden := range forbiddenKeys\<close>.\<close>

fun check_forbidden :: "string list \<Rightarrow> labels \<Rightarrow> validation_error option" where
  "check_forbidden [] ls = None"
| "check_forbidden (forbidden # fs) ls =
     (if forbidden \<in> set (map fst ls) then Some (ForbiddenLabelKey forbidden)
      else (case check_keys_contain forbidden ls of
              Some e \<Rightarrow> Some e
            | None \<Rightarrow> check_forbidden fs ls))"

text \<open>The loop over the labels that checks sizes and value patterns.\<close>

fun check_label_sizes :: "labels \<Rightarrow> validation_error option" where
  "check_label_sizes [] = None"
| "check_label_sizes ((key, val) # ls) =
     (if length key > MaxLabelKeyLength then Some (LabelKeyTooLong key)
      else if length val > MaxLabelValueLength then Some (LabelValueTooLong key)
      else if strings_Contains (ToLower val) ''@'' \<and> strings_Contains (ToLower val) ''.''
        then Some LabelValueLooksLikeEmail
      else if HasPrefix (ToLower val) ''ssh-'' then Some LabelValueLooksLikeSSHKey
      else check_label_sizes ls)"

definition validTypes :: "string list" where
  "validTypes = [MetricTypeCounter, MetricTypeGauge, MetricTypeHistogram, MetricTypeSummary]"

definition validateMetric :: "Metric \<Rightarrow> validation_error option" where
  "validateMetric m =
     (if length (Name m) = 0 \<or> length (Name m) > MaxMetricNameLength
        then Some (InvalidMetricNameLength (length (Name m)))
      else (case check_forbidden forbiddenKeys (Labels m) of
              Some e \<Rightarrow> Some e
            | None \<Rightarrow>
                if length (Labels m) > MaxLabelsPerMetric then Some (TooManyLabels (length (Labels m)))
                else (case check_label_sizes (Labels m) of
                        Some e \<Rightarrow> Some e
                      | None \<Rightarrow>
                          if Type m \<in> set validTypes then None
                          else Some (InvalidMetricType (Type m)))))"

text \<open>
  An incoming MQTT message: its topic, and what \<open>json.Unmarshal\<close> makes of its payload
  (\<open>None\<close> when it returns an error).
\<close>

record mqtt_message =
  Topic :: string
  Payload :: "Metric option"

text \<open>
  The branch a call of \<open>messageHandler\<close> ends in, named after the line it logs there
  (the last one returns without logging).
\<close>

datatype handler_outcome =
    InvalidTopicFormat string
  | FailedToParse string
  | ServiceMismatch string string
  | ValidationFailed string validation_error
  | InvalidTimestamp string int
  | FailedToStore string string
  | Stored

definition reject :: "collector \<Rightarrow> collector" where
  "reject st = st\<lparr>metricsRejected := metricsRejected st + 1\<rparr>"

text \<open>
  \<open>messageHandler\<close> as mqtt/subscriber.go has it. \<open>now\<close> is \<open>time.Now().Unix()\<close>, \<open>db\<close> the
  database's answers to the insert attempts.
\<close>

definition messageHandler :: "(nat \<Rightarrow> insert_outcome) \<Rightarrow> int \<Rightarrow> mqtt_message \<Rightarrow> collector
    \<Rightarrow> handler_outcome \<times> collector" where
  "messageHandler db now msg st0 =
     (let st = st0\<lparr>metricsReceived := metricsReceived st0 + 1\<rparr>;
          topicParts = strings_Split (Topic msg) CHR ''/''
      in if length topicParts \<noteq> 2 \<or> topicParts ! 0 \<noteq> ''metrics''
           then (InvalidTopicFormat (Topic msg), reject st)
         else
           let serviceName = topicParts ! 1
           in case Payload msg of
                None \<Rightarrow> (FailedToParse serviceName, reject st)
              | Some metric \<Rightarrow>
                  if Service metric \<noteq> serviceName
                    then (ServiceMismatch serviceName (Service metric), reject st)
                  else (case validateMetric metric of
                          Some e \<Rightarrow> (ValidationFailed serviceName e, reject st)
                        | None \<Rightarrow>
                            if Timestamp metric \<le> 0 \<or> Timestamp metric > now + 60
                              then (InvalidTimestamp serviceName (Timestamp metric), reject st)
                            else (case StoreMetric db now metric st of
                                    (Some err, tr, st') \<Rightarrow> (FailedToStore serviceName err, st')
                                  | (None, tr, st') \<Rightarrow>
                                      (Stored, st'\<lparr>metricsStored := metricsStored st' + 1\<rparr>))))"

text \<open>
  The second \<open>messageHandler\<close> of the sources (the subscriber whose \<open>GetStatistics\<close> reads
  the stored count from the storage instance): it goes from the service-name check
  straight to the timestamp check, and leaves the stored counter to the storage.
\<close>

definition messageHandler2 :: "(nat \<Rightarrow> insert_outcome) \<Rightarrow> int \<Rightarrow> mqtt_message \<Rightarrow> collector
    \<Rightarrow> handler_outcome \<times> collector" where
  "messageHandler2 db now msg st0 =
     (let st = st0\<lparr>metricsReceived := metricsReceived st0 + 1\<rparr>;
          topicParts = strings_Split (Topic msg) CHR ''/''
      in if length topicParts \<noteq> 2 \<or> topicParts ! 0 \<noteq> ''metrics''
           then (InvalidTopicFormat (Topic msg), reject st)
         else
           let serviceName = topicParts ! 1
           in case Payload msg of
                None \<Rightarrow> (FailedToParse serviceName, reject st)
              | Some metric \<Rightarrow>
                  if Service metric \<noteq> serviceName
                    then (ServiceMismatch serviceName (Service metric), reject st)
                  else if Timestamp metric \<le> 0 \<or> Timestamp metric > now + 60
                    then (InvalidTimestamp serviceName (Timestamp metric), reject st)
                  else (case StoreMetric db now metric st of
                          (Some err, tr, st') \<Rightarrow> (FailedToStore serviceName err, st')
                        | (None, tr, st') \<Rightarrow> (Stored, st')))"

text \<open>Whether a handler's branch is one of those before the persist step.\<close>

fun rejected_before_persist :: "handler_outcome \<Rightarrow> bool" where
  "rejected_before_persist (InvalidTopicFormat t) = True"
| "rejected_before_persist (FailedToParse s) = True"
| "rejected_before_persist (ServiceMismatch s t) = True"
| "rejected_before_persist (ValidationFailed s e) = True"
| "rejected_before_persist (InvalidTimestamp s t) = True"
| "rejected_before_persist (FailedToStore s e) = False"
| "rejected_before_persist Stored = False"

fun persist_failed :: "handler_outcome \<Rightarrow> bool" where
  "persist_failed (FailedToStore s e) = True"
| "persist_failed other = False"

text \<open>
  The labels the zero-knowledge check is about: a key that is a forbidden word or has one
  inside it when lower-cased, a value with both \<open>@\<close> and \<open>.\<close> in it, or a value that
  starts with \<open>ssh-\<close>.
\<close>

definition sensitive_label :: "string \<times> string \<Rightarrow> bool" where
  "sensitive_label kv =
     ((\<exists>f \<in> set forbiddenKeys. fst kv = f \<or> sublist f (ToLower (fst kv)))
      \<or> (sublist ''@'' (snd kv) \<and> sublist ''.'' (snd kv))
      \<or> prefix ''ssh-'' (snd kv))"

text \<open>
  The retryable class as the specification lists it (five patterns), to compare with
  \<open>retryablePatterns\<close>.
\<close>

definition spec_retryable_class :: "string list" where
  "spec_retryable_class =
     [''connection refused'', ''connection reset'', ''deadlock'', ''timeout'', ''too many connections'']"

section \<open>Entry-Hub: metrics aggregator (package metrics)\<close>

text \<open>
  The latency buffer \<open>requestDurations\<close> is a \<open>[]float64\<close>; its values are modelled as
  reals (a duration is never NaN). \<open>RecordRequestDuration\<close> appends at the end and, at 10000
  samples, first drops the oldest 5000: the buffer holds the samples in arrival order.
\<close>

definition RecordRequestDuration :: "real \<Rightarrow> real list \<Rightarrow> real list" where
  "RecordRequestDuration durationMs requestDurations =
     (if length requestDurations \<ge> 10000 then drop 5000 requestDurations else requestDurations)
     @ [durationMs]"

text \<open>
  \<open>calculatePercentile\<close>. The index is \<^verbatim>\<open>int(float64(len(values)) * percentile / 100)\<close>;
  for the percentiles the aggregator asks for (50, 95, 99, given here as naturals) and a
  buffer of at most 10000 samples the product is exact in \<open>float64\<close> and the truncated
  quotient is the integer quotient. The index is clamped before the read, so the read is
  always in range.
\<close>

definition calculatePercentile :: "real list \<Rightarrow> nat \<Rightarrow> real" where
  "calculatePercentile values percentile =
     (if length values = 0 then 0
      else
        let index = (length values * percentile) div 100;
            index = (if index \<ge> length values then length values - 1 else index)
        in values ! index)"

text \<open>
  The request-duration part of \<open>GetMetrics\<close>: the three gauges, each with its \<open>quantile\<close>
  label and its value.
\<close>

definition export_quantiles :: "real list \<Rightarrow> (string \<times> real) list" where
  "export_quantiles requestDurations =
     (if length requestDurations > 0 then
        [(''0.5'', calculatePercentile requestDurations 50),
         (''0.95'', calculatePercentile requestDurations 95),
         (''0.99'', calculatePercentile requestDurations 99)]
      else [])"

section \<open>Database-Vault: email encryption (package crypto)\<close>

text \<open>
  A byte slice is, like a string, a sequence of 8-bit values; \<open>[]byte(s)\<close> and \<open>string(b)\<close>
  keep the bytes.
\<close>

type_synonym bytes = string

text \<open>\<open>%d\<close> of a length.\<close>

function decimal :: "nat \<Rightarrow> string" where
  "decimal n = (if n < 10 then [char_of (48 + n)] else decimal (n div 10) @ [char_of (48 + n mod 10)])"
  by pat_completeness auto
termination
  by (relation "measure (\<lambda>n. n)") auto

text \<open>
  What the crypto package takes from outside the sources at hand: SHA-256, hex and
  standard base64 coding and AES-GCM from the Go library, and the package's own
  \<open>DeriveKey\<close> (HKDF), whose file is not among the sources. A function that can fail
  returns \<open>Inl\<close> with the error's text.
\<close>

record crypto_lib =
  sha256_Sum256 :: "bytes \<Rightarrow> bytes"
  hex_EncodeToString :: "bytes \<Rightarrow> string"
  hex_DecodeString :: "string \<Rightarrow> string + bytes"
  base64_EncodeToString :: "bytes \<Rightarrow> string"
  base64_DecodeString :: "string \<Rightarrow> string + bytes"
  DeriveKey :: "bytes \<Rightarrow> bytes \<Rightarrow> string \<Rightarrow> nat \<Rightarrow> string + bytes"
  gcm_Seal :: "bytes \<Rightarrow> bytes \<Rightarrow> bytes \<Rightarrow> bytes"
  gcm_Open :: "bytes \<Rightarrow> bytes \<Rightarrow> bytes \<Rightarrow> string + bytes"

text \<open>\<open>ValidateEncryptionKey\<close>: \<open>None\<close> for \<open>nil\<close>.\<close>

definition ValidateEncryptionKey :: "bytes \<Rightarrow> string option" where
  "ValidateEncryptionKey key =
     (if length key \<noteq> 32
        then Some (''invalid key length: AES-256 requires 32 bytes, got '' @ decimal (length key))
      else if list_all (\<lambda>b. b = CHR 0x00) key
        then Some ''invalid key: all-zero key is not secure''
      else None)"

text \<open>\<open>HashEmail\<close> (the same function in database-vault/crypto and entry-hub/utils).\<close>

definition HashEmail :: "crypto_lib \<Rightarrow> string \<Rightarrow> string" where
  "HashEmail lib email = hex_EncodeToString lib (sha256_Sum256 lib email)"

text \<open>\<open>aes.NewCipher\<close> accepts keys of 16, 24 and 32 bytes only.\<close>

definition aes_NewCipher_error :: "bytes \<Rightarrow> string option" where
  "aes_NewCipher_error key =
     (if length key = 16 \<or> length key = 24 \<or> length key = 32 then None
      else Some (''crypto/aes: invalid key size '' @ decimal (length key)))"

text \<open>
  \<open>EncryptEmailSecure\<close>. \<open>saltRand\<close> and \<open>nonceRand\<close> are what the two calls of
  \<open>rand.Read\<close> give: the error, or the 16 and the 12 random bytes. \<open>gcm.Seal(nonce, nonce,
  plaintext, nil)\<close> appends the sealed text to the nonce.
\<close>

definition EncryptEmailSecure :: "crypto_lib \<Rightarrow> string + bytes \<Rightarrow> string + bytes \<Rightarrow> string \<Rightarrow> bytes
    \<Rightarrow> string + (string \<times> string)" where
  "EncryptEmailSecure lib saltRand nonceRand email masterKey =
     (case ValidateEncryptionKey masterKey of
        Some err \<Rightarrow> Inl (''invalid master key: '' @ err)
      | None \<Rightarrow>
     (case saltRand of
        Inl err \<Rightarrow> Inl (''failed to generate salt: '' @ err)
      | Inr saltBytes \<Rightarrow>
     (case DeriveKey lib masterKey saltBytes ''email-encryption-secure-v1'' 32 of
        Inl err \<Rightarrow> Inl (''failed to derive email key: '' @ err)
      | Inr emailKey \<Rightarrow>
     (case nonceRand of
        Inl err \<Rightarrow> Inl (''failed to generate nonce: '' @ err)
      | Inr nonce \<Rightarrow>
     (case aes_NewCipher_error emailKey of
        Some err \<Rightarrow> Inl (''failed to create AES cipher: '' @ err)
      | None \<Rightarrow>
          let ciphertext = nonce @ gcm_Seal lib emailKey nonce email
          in Inr (base64_EncodeToString lib ciphertext, hex_EncodeToString lib saltBytes))))))"

definition DecryptEmailSecure :: "crypto_lib \<Rightarrow> string \<Rightarrow> string \<Rightarrow> bytes \<Rightarrow> string + string" where
  "DecryptEmailSecure lib encryptedEmail salt masterKey =
     (case ValidateEncryptionKey masterKey of
        Some err \<Rightarrow> Inl (''invalid master key: '' @ err)
      | None \<Rightarrow>
     (case hex_DecodeString lib salt of
        Inl err \<Rightarrow> Inl (''failed to decode salt: '' @ err)
      | Inr saltBytes \<Rightarrow>
     (case DeriveKey lib masterKey saltBytes ''email-encryption-secure-v1'' 32 of
        Inl err \<Rightarrow> Inl (''failed to derive email key: '' @ err)
      | Inr emailKey \<Rightarrow>
     (case base64_DecodeString lib encryptedEmail of
        Inl err \<Rightarrow> Inl (''failed to decode base64: '' @ err)
      | Inr ciphertext \<Rightarrow>
          if length ciphertext < 12
            then Inl (''ciphertext too short: expected at least 12 bytes, got ''
                      @ decimal (length ciphertext))
          else
            let nonce = take 12 ciphertext;
                encrypted = drop 12 ciphertext
            in (case aes_NewCipher_error emailKey of
                  Some err \<Rightarrow> Inl (''failed to create AES cipher: '' @ err)
                | None \<Rightarrow>
                    (case gcm_Open lib emailKey nonce encrypted of
                       Inl err \<Rightarrow>
                         Inl (''decryption failed - invalid ciphertext or authentication tag: '' @ err)
                     | Inr plaintext \<Rightarrow> Inr plaintext))))))"

section \<open>Concrete inputs\<close>

text \<open>A collector process whose storage was never initialised.\<close>

definition collector_without_storage :: collector where
  "collector_without_storage =
     \<lparr>metricsReceived = 0, metricsRejected = 0, metricsStored = 0, storageInstance = None\<rparr>"

text \<open>A collector process with an initialised, empty time-series table.\<close>

definition collector_with_storage :: collector where
  "collector_with_storage =
     \<lparr>metricsReceived = 0, metricsRejected = 0, metricsStored = 0,
      storageInstance = Some \<lparr>rows = [], ts_metricsStored = 0, ts_metricsFailures = 0\<rparr>\<rparr>"

text \<open>A database on which every insert commits.\<close>

definition db_ok :: "nat \<Rightarrow> insert_outcome" where
  "db_ok attempt = InsertOK"

text \<open>
  The metric of the specification's scenario "metric with forbidden label", published on
  \<open>metrics/entry-hub\<close> at time 1700000000.
\<close>

definition metric_with_email_label :: Metric where
  "metric_with_email_label =
     \<lparr>Service = ''entry-hub'', Timestamp = 1700000000, Name = ''x'', Value = 1,
      Labels = [(''email'', ''a@b.c'')], Type = ''gauge''\<rparr>"

text \<open>A metric that passes every check of the collector.\<close>

definition clean_metric :: Metric where
  "clean_metric =
     \<lparr>Service = ''entry-hub'', Timestamp = 1700000000, Name = ''requests_total'', Value = 7,
      Labels = [(''method'', ''POST'')], Type = ''counter''\<rparr>"

definition message_with_email_label :: mqtt_message where
  "message_with_email_label = \<lparr>Topic = ''metrics/entry-hub'', Payload = Some metric_with_email_label\<rparr>"

definition clean_message :: mqtt_message where
  "clean_message = \<lparr>Topic = ''metrics/entry-hub'', Payload = Some clean_metric\<rparr>"

text \<open>A database whose connection breaks on every insert.\<close>

definition db_broken_pipe :: "nat \<Rightarrow> insert_outcome" where
  "db_broken_pipe attempt = ExecFails ''write tcp 10.0.0.5:5432: write: broken pipe''"

text \<open>A database that refuses the row on every insert.\<close>

definition db_rejects_row :: "nat \<Rightarrow> insert_outcome" where
  "db_rejects_row attempt = ExecFails ''ERROR: value too long for type character varying(100) (SQLSTATE 22001)''"

text \<open>A database whose first insert times out and whose second commits.\<close>

definition db_timeout_then_ok :: "nat \<Rightarrow> insert_outcome" where
  "db_timeout_then_ok attempt = (if attempt = 0 then BeginFails ''timeout: context deadline exceeded'' else InsertOK)"

text \<open>A database that reports a deadlock on every insert.\<close>

definition db_deadlock :: "nat \<Rightarrow> insert_outcome" where
  "db_deadlock attempt = ExecFails ''ERROR: deadlock detected (SQLSTATE 40P01)''"

definition empty_storage :: TimescaleDBStorage where
  "empty_storage = \<lparr>rows = [], ts_metricsStored = 0, ts_metricsFailures = 0\<rparr>"

text \<open>The buffer after three requests that took 0 ms, 5 ms and 1 ms, in this order.\<close>

definition recorded_0_5_1 :: "real list" where
  "recorded_0_5_1 = RecordRequestDuration 1 (RecordRequestDuration 5 (RecordRequestDuration 0 []))"

text \<open>
  A stand-in for the library: no coding (hex and base64 leave the bytes as they are), a
  digest of 64 fixed characters, a key derivation that takes the first bytes of salt and
  master key, and a seal that appends a fixed 16-byte tag which open checks and removes.
\<close>

definition stand_in_tag :: bytes where
  "stand_in_tag = ''0123456789abcdef''"

definition stand_in_open :: "bytes \<Rightarrow> bytes \<Rightarrow> bytes \<Rightarrow> string + bytes" where
  "stand_in_open k n c =
     (if length c \<ge> 16 \<and> drop (length c - 16) c = stand_in_tag
      then Inr (take (length c - 16) c)
      else Inl ''cipher: message authentication failed'')"

definition stand_in_lib :: crypto_lib where
  "stand_in_lib =
     \<lparr>sha256_Sum256 = (\<lambda>b. replicate 64 (CHR ''a'')),
      hex_EncodeToString = (\<lambda>b. b),
      hex_DecodeString = (\<lambda>s. Inr s),
      base64_EncodeToString = (\<lambda>b. b),
      base64_DecodeString = (\<lambda>s. Inr s),
      DeriveKey = (\<lambda>masterKey salt info n. Inr (take n (salt @ masterKey))),
      gcm_Seal = (\<lambda>k n p. p @ stand_in_tag),
      gcm_Open = stand_in_open\<rparr>"

definition example_master_key :: bytes where
  "example_master_key = ''0123456789abcdef0123456789abcdef''"

definition example_salt :: bytes where
  "example_salt = ''saltsaltsaltsalt''"

definition example_nonce :: bytes where
  "example_nonce = ''noncenonce12''"

section \<open>Theorems\<close>

subsection \<open>Substring tests\<close>

lemma HasPrefix_iff: "HasPrefix s p \<longleftrightarrow> prefix p s"
  unfolding HasPrefix_def
  by (metis append_eq_conv_conj prefix_def take_is_prefix)

lemma strings_Contains_iff: "strings_Contains s sub \<longleftrightarrow> sublist sub s"
  by (induction s) (auto simp: HasPrefix_iff sublist_Cons_right)

lemma sublist_same_length: "sublist xs ys \<Longrightarrow> length xs = length ys \<Longrightarrow> xs = ys"
  by (auto simp: sublist_def)

lemma sublist_single: "sublist [c] v \<longleftrightarrow> c \<in> set v"
  by (induction v) (auto simp: sublist_Cons_right)

text \<open>The recursive \<open>contains\<close> of timescaledb.go is a (case-sensitive) substring test.\<close>

lemma contains_iff: "contains s sub \<longleftrightarrow> sublist sub s"
proof (induction s arbitrary: sub)
  case Nil
  show ?case by (subst contains.simps) auto
next
  case (Cons a s)
  have len: "sublist sub (a # s) \<Longrightarrow> length sub \<le> length (a # s)"
    using sublist_length_le by blast
  show ?case
  proof (cases "length sub \<le> length (a # s)")
    case False
    then show ?thesis using len by (subst contains.simps) auto
  next
    case le: True
    show ?thesis
    proof (cases "a # s = sub")
      case True
      then show ?thesis by (subst contains.simps) auto
    next
      case ne: False
      show ?thesis
      proof (cases "length sub < length (a # s)")
        case True
        have "prefix sub (a # s) \<longleftrightarrow> take (length sub) (a # s) = sub"
          by (metis append_eq_conv_conj prefix_def take_is_prefix)
        then show ?thesis
          using True ne le Cons.IH[of sub]
          by (subst contains.simps) (auto simp: sublist_Cons_right)
      next
        case False
        then have "length sub = length (a # s)" using le by simp
        then have "\<not> sublist sub (a # s)" using ne sublist_same_length by metis
        then show ?thesis using False ne le by (subst contains.simps) auto
      qed
    qed
  qed
qed

subsection \<open>The insert retry loop\<close>

lemma store_loop_rows:
  "ts_StoreMetric db now m s = (err, tr, s') \<Longrightarrow>
     (err \<noteq> None \<longrightarrow> rows s' = rows s \<and> ts_metricsStored s' = ts_metricsStored s
                      \<and> ts_metricsFailures s' = ts_metricsFailures s + 1)
   \<and> (err = None \<longrightarrow> (\<exists>row. rows s' = rows s @ [row] \<and> sm_Labels row = Labels m)
                      \<and> ts_metricsStored s' = ts_metricsStored s + 1)"
  by (auto simp: ts_StoreMetric_def maxRetries_def executeInsert_def Let_def
      incrementFailureCount_def incrementStoredCount_def
      split: option.splits prod.splits if_splits)

lemma ts_StoreMetric_unrolled:
  "(fst (ts_StoreMetric db now m s), fst (snd (ts_StoreMetric db now m s))) =
     (case executeInsert_error (db 0) of
        None \<Rightarrow> (None, \<lparr>attempts = 1, sleeps = []\<rparr>)
      | Some e0 \<Rightarrow>
          if \<not> isRetryableError e0
          then (Some (''non-retryable error storing metric: '' @ e0), \<lparr>attempts = 1, sleeps = []\<rparr>)
          else (case executeInsert_error (db 1) of
             None \<Rightarrow> (None, \<lparr>attempts = 2, sleeps = [100]\<rparr>)
           | Some e1 \<Rightarrow>
               if \<not> isRetryableError e1
               then (Some (''non-retryable error storing metric: '' @ e1), \<lparr>attempts = 2, sleeps = [100]\<rparr>)
               else (case executeInsert_error (db 2) of
                  None \<Rightarrow> (None, \<lparr>attempts = 3, sleeps = [100, 200]\<rparr>)
                | Some e2 \<Rightarrow>
                    if \<not> isRetryableError e2
                    then (Some (''non-retryable error storing metric: '' @ e2),
                          \<lparr>attempts = 3, sleeps = [100, 200]\<rparr>)
                    else (Some ''failed to store metric after 3 attempts'',
                          \<lparr>attempts = 3, sleeps = [100, 200]\<rparr>))))"
  by (simp add: ts_StoreMetric_def maxRetries_def executeInsert_def Let_def
      numeral_2_eq_2 split: option.splits)

lemma retry_bounds:
  assumes "(err, tr) = (fst (ts_StoreMetric db now m s), fst (snd (ts_StoreMetric db now m s)))"
  shows "1 \<le> attempts tr \<and> attempts tr \<le> 3 \<and> sleeps tr = map (\<lambda>k. 100 * k) [1..<attempts tr]"
  using assms unfolding ts_StoreMetric_unrolled
  by (auto split: option.splits if_splits simp: upt_rec)

lemma retry_only_if:
  assumes "(err, tr) = (fst (ts_StoreMetric db now m s), fst (snd (ts_StoreMetric db now m s)))"
    and "Suc k < attempts tr"
  shows "\<exists>e. executeInsert_error (db k) = Some e \<and> isRetryableError e"
proof -
  have "k = 0 \<or> k = 1 \<or> 3 \<le> Suc k" by arith
  then show ?thesis
    using assms unfolding ts_StoreMetric_unrolled
    by (auto split: option.splits if_splits)
qed

lemma retry_if:
  assumes "(err, tr) = (fst (ts_StoreMetric db now m s), fst (snd (ts_StoreMetric db now m s)))"
    and "k < attempts tr" and "Suc k < 3"
    and "executeInsert_error (db k) = Some e" and "isRetryableError e"
  shows "Suc k < attempts tr"
proof -
  have "k = 0 \<or> k = 1" using assms(3) by arith
  then show ?thesis
    using assms unfolding ts_StoreMetric_unrolled
    by (auto split: option.splits if_splits)
qed

lemma retry_stop_nonretryable:
  assumes "(err, tr) = (fst (ts_StoreMetric db now m s), fst (snd (ts_StoreMetric db now m s)))"
    and "k < attempts tr"
    and "executeInsert_error (db k) = Some e" and "\<not> isRetryableError e"
  shows "attempts tr = Suc k \<and> err = Some (''non-retryable error storing metric: '' @ e)"
proof -
  have "k = 0 \<or> k = 1 \<or> k = 2 \<or> 3 \<le> k" by arith
  then show ?thesis
    using assms unfolding ts_StoreMetric_unrolled
    by (auto split: option.splits if_splits)
qed

lemma retry_stop_success:
  assumes "(err, tr) = (fst (ts_StoreMetric db now m s), fst (snd (ts_StoreMetric db now m s)))"
    and "k < attempts tr"
    and "executeInsert_error (db k) = None"
  shows "attempts tr = Suc k \<and> err = None"
proof -
  have "k = 0 \<or> k = 1 \<or> k = 2 \<or> 3 \<le> k" by arith
  then show ?thesis
    using assms unfolding ts_StoreMetric_unrolled
    by (auto split: option.splits if_splits)
qed

lemma retry_exhausted:
  assumes "(err, tr) = (fst (ts_StoreMetric db now m s), fst (snd (ts_StoreMetric db now m s)))"
    and "\<forall>k<3. \<exists>e. executeInsert_error (db k) = Some e \<and> isRetryableError e"
  shows "attempts tr = 3 \<and> err = Some ''failed to store metric after 3 attempts''"
proof -
  have l: "(0::nat) < 3" "(1::nat) < 3" "(2::nat) < 3" by simp_all
  obtain e0 where e0: "executeInsert_error (db 0) = Some e0" "isRetryableError e0"
    using assms(2)[rule_format, OF l(1)] by (elim exE conjE)
  obtain e1 where e1: "executeInsert_error (db 1) = Some e1" "isRetryableError e1"
    using assms(2)[rule_format, OF l(2)] by (elim exE conjE)
  obtain e2 where e2: "executeInsert_error (db 2) = Some e2" "isRetryableError e2"
    using assms(2)[rule_format, OF l(3)] by (elim exE conjE)
  have "(err, tr) = (Some ''failed to store metric after 3 attempts'', \<lparr>attempts = 3, sleeps = [100, 200]\<rparr>)"
    unfolding assms(1) ts_StoreMetric_unrolled
    by (simp only: e0 e1 e2 option.case if_not_P not_not if_False simp_thms)
  then show ?thesis by simp
qed

lemma matches_any_iff: "matches_any e ps \<longleftrightarrow> (\<exists>p \<in> set ps. sublist p e)"
  by (induction ps) (simp_all only: matches_any.simps contains_iff list.set ball_simps bex_simps
      empty_iff insert_iff simp_thms if_True if_False split: if_split, blast)

lemma isRetryableError_iff:
  "isRetryableError e \<longleftrightarrow>
     sublist ''connection refused'' e \<or> sublist ''connection reset'' e \<or> sublist ''broken pipe'' e
     \<or> sublist ''deadlock'' e \<or> sublist ''timeout'' e \<or> sublist ''too many connections'' e"
  unfolding isRetryableError_def retryablePatterns_def matches_any_iff
  by (simp only: list.set bex_simps Set.bex_simps insert_iff empty_iff simp_thms
      Set.ball_simps bex_triv_one_point1 bex_triv_one_point2 ex_disj_distrib
      Bex_def simp_thms ex_simps conj_disj_distribR)

lemma sublist_map: "sublist p e \<Longrightarrow> sublist (map f p) (map f e)"
  unfolding sublist_def by (metis map_append)

lemma retryable_if_contains:
  assumes "sublist ''connection refused'' e \<or> sublist ''connection reset'' e
     \<or> sublist ''broken pipe'' e \<or> sublist ''deadlock'' e \<or> sublist ''timeout'' e
     \<or> sublist ''too many connections'' e"
  shows "isRetryableError e"
  using assms unfolding isRetryableError_iff by (elim disjE) (intro disjI1 disjI2; assumption)+

lemma patterns_lower_case:
  "map lower_char ''connection refused'' = ''connection refused''"
  "map lower_char ''connection reset'' = ''connection reset''"
  "map lower_char ''broken pipe'' = ''broken pipe''"
  "map lower_char ''deadlock'' = ''deadlock''"
  "map lower_char ''timeout'' = ''timeout''"
  "map lower_char ''too many connections'' = ''too many connections''"
  by (simp_all add: lower_char_def)

lemma retryable_only_if_contains:
  assumes "isRetryableError e"
  shows "sublist ''connection refused'' (map lower_char e) \<or> sublist ''connection reset'' (map lower_char e)
     \<or> sublist ''broken pipe'' (map lower_char e) \<or> sublist ''deadlock'' (map lower_char e)
     \<or> sublist ''timeout'' (map lower_char e) \<or> sublist ''too many connections'' (map lower_char e)"
proof -
  from assms consider
      "sublist ''connection refused'' e" | "sublist ''connection reset'' e"
    | "sublist ''broken pipe'' e" | "sublist ''deadlock'' e" | "sublist ''timeout'' e"
    | "sublist ''too many connections'' e"
    unfolding isRetryableError_iff by (elim disjE)
  then show ?thesis
  proof cases
    case 1 from sublist_map[OF this, of lower_char] show ?thesis
      unfolding patterns_lower_case by (intro disjI1)
  next
    case 2 from sublist_map[OF this, of lower_char] show ?thesis
      unfolding patterns_lower_case by (intro disjI2 disjI1)
  next
    case 3 from sublist_map[OF this, of lower_char] show ?thesis
      unfolding patterns_lower_case by (intro disjI2 disjI1)
  next
    case 4 from sublist_map[OF this, of lower_char] show ?thesis
      unfolding patterns_lower_case by (intro disjI2 disjI1)
  next
    case 5 from sublist_map[OF this, of lower_char] show ?thesis
      unfolding patterns_lower_case by (intro disjI2 disjI1)
  next
    case 6 from sublist_map[OF this, of lower_char] show ?thesis
      unfolding patterns_lower_case by (intro disjI2)
  qed
qed

text \<open>
  Claim C7, amended. Every call of StoreMetric on the time-series storage makes between one
  and three insert attempts and sleeps 100 ms times k after the k-th failed attempt that is
  followed by another one. An attempt is followed by another one exactly when it failed
  with a retryable error and fewer than three attempts have been made: a retryable error
  with attempts left is retried, a successful attempt ends the call with no error, an error
  that is not retryable ends it at once with the non-retryable error (after a single
  attempt when it is the first), and three retryable errors end it with the error
  "failed to store metric after 3 attempts". An error whose text contains one of the six
  patterns "connection refused", "connection reset", "broken pipe", "deadlock", "timeout",
  "too many connections" is retryable, and an error whose text contains none of them,
  letter case ignored, is not.
\<close>

theorem C7_retry_policy:
  fixes db :: "nat \<Rightarrow> insert_outcome" and now :: int and m :: Metric
    and s :: TimescaleDBStorage
  defines "err \<equiv> fst (ts_StoreMetric db now m s)"
      and "tr \<equiv> fst (snd (ts_StoreMetric db now m s))"
  shows "1 \<le> attempts tr \<and> attempts tr \<le> 3
     \<and> sleeps tr = map (\<lambda>k. 100 * k) [1..<attempts tr]
     \<and> (\<forall>k. Suc k < attempts tr \<longrightarrow>
            (\<exists>e. executeInsert_error (db k) = Some e \<and> isRetryableError e))
     \<and> (\<forall>k e. k < attempts tr \<and> Suc k < 3 \<and> executeInsert_error (db k) = Some e
              \<and> isRetryableError e \<longrightarrow> Suc k < attempts tr)
     \<and> (\<forall>k e. k < attempts tr \<and> executeInsert_error (db k) = Some e \<and> \<not> isRetryableError e \<longrightarrow>
            attempts tr = Suc k \<and> err = Some (''non-retryable error storing metric: '' @ e))
     \<and> (\<forall>k. k < attempts tr \<and> executeInsert_error (db k) = None \<longrightarrow>
            attempts tr = Suc k \<and> err = None)
     \<and> ((\<forall>k<3. \<exists>e. executeInsert_error (db k) = Some e \<and> isRetryableError e) \<longrightarrow>
            attempts tr = 3 \<and> err = Some ''failed to store metric after 3 attempts'')
     \<and> (\<forall>e. sublist ''connection refused'' e \<or> sublist ''connection reset'' e
              \<or> sublist ''broken pipe'' e \<or> sublist ''deadlock'' e \<or> sublist ''timeout'' e
              \<or> sublist ''too many connections'' e \<longrightarrow> isRetryableError e)
     \<and> (\<forall>e. isRetryableError e \<longrightarrow>
            sublist ''connection refused'' (map lower_char e)
            \<or> sublist ''connection reset'' (map lower_char e)
            \<or> sublist ''broken pipe'' (map lower_char e)
            \<or> sublist ''deadlock'' (map lower_char e)
            \<or> sublist ''timeout'' (map lower_char e)
            \<or> sublist ''too many connections'' (map lower_char e))"
proof -
  have r: "(err, tr) = (fst (ts_StoreMetric db now m s), fst (snd (ts_StoreMetric db now m s)))"
    by (simp only: err_def tr_def)
  show ?thesis
  proof (intro conjI allI impI)
    show "1 \<le> attempts tr" "attempts tr \<le> 3"
      "sleeps tr = map (\<lambda>k. 100 * k) [1..<attempts tr]"
      using retry_bounds[OF r] by simp_all
  next
    fix k assume "Suc k < attempts tr"
    then show "\<exists>e. executeInsert_error (db k) = Some e \<and> isRetryableError e"
      by (rule retry_only_if[OF r])
  next
    fix k e
    assume "k < attempts tr \<and> Suc k < 3 \<and> executeInsert_error (db k) = Some e \<and> isRetryableError e"
    then show "Suc k < attempts tr"
      using retry_if[OF r, of k e] by blast
  next
    fix k e
    assume a: "k < attempts tr \<and> executeInsert_error (db k) = Some e \<and> \<not> isRetryableError e"
    then have "attempts tr = Suc k \<and> err = Some (''non-retryable error storing metric: '' @ e)"
      using retry_stop_nonretryable[OF r, of k e] by blast
    then show "attempts tr = Suc k" "err = Some (''non-retryable error storing metric: '' @ e)"
      by blast+
  next
    fix k
    assume a: "k < attempts tr \<and> executeInsert_error (db k) = None"
    then have "attempts tr = Suc k \<and> err = None"
      using retry_stop_success[OF r, of k] by blast
    then show "attempts tr = Suc k" "err = None"
      by blast+
  next
    assume a: "\<forall>k<3. \<exists>e. executeInsert_error (db k) = Some e \<and> isRetryableError e"
    from retry_exhausted[OF r a]
    show "attempts tr = 3" "err = Some ''failed to store metric after 3 attempts''"
      by blast+
  next
    fix e
    assume "sublist ''connection refused'' e \<or> sublist ''connection reset'' e
              \<or> sublist ''broken pipe'' e \<or> sublist ''deadlock'' e \<or> sublist ''timeout'' e
              \<or> sublist ''too many connections'' e"
    then show "isRetryableError e" by (rule retryable_if_contains)
  next
    fix e assume "isRetryableError e"
    then show "sublist ''connection refused'' (map lower_char e)
            \<or> sublist ''connection reset'' (map lower_char e)
            \<or> sublist ''broken pipe'' (map lower_char e)
            \<or> sublist ''deadlock'' (map lower_char e)
            \<or> sublist ''timeout'' (map lower_char e)
            \<or> sublist ''too many connections'' (map lower_char e)"
      by (rule retryable_only_if_contains)
  qed
qed

lemma timeout_error_retryable:
  "isRetryableError ''failed to begin transaction: timeout: context deadline exceeded''"
  by code_simp

lemma deadlock_error_retryable:
  "isRetryableError ''insert failed: ERROR: deadlock detected (SQLSTATE 40P01)''"
  by code_simp

theorem C7_retry_policy_witness:
  "attempts (fst (snd (ts_StoreMetric db_timeout_then_ok 1700000000 clean_metric empty_storage))) = 2
   \<and> sleeps (fst (snd (ts_StoreMetric db_timeout_then_ok 1700000000 clean_metric empty_storage))) = [100]
   \<and> fst (ts_StoreMetric db_timeout_then_ok 1700000000 clean_metric empty_storage) = None
   \<and> attempts (fst (snd (ts_StoreMetric db_deadlock 1700000000 clean_metric empty_storage))) = 3
   \<and> sleeps (fst (snd (ts_StoreMetric db_deadlock 1700000000 clean_metric empty_storage))) = [100, 200]
   \<and> fst (ts_StoreMetric db_deadlock 1700000000 clean_metric empty_storage)
       = Some ''failed to store metric after 3 attempts''"
proof -
  note c = C7_retry_policy[of db_timeout_then_ok 1700000000 clean_metric empty_storage]
  note d = C7_retry_policy[of db_deadlock 1700000000 clean_metric empty_storage]
  let ?T = "fst (snd (ts_StoreMetric db_timeout_then_ok 1700000000 clean_metric empty_storage))"
  let ?D = "fst (snd (ts_StoreMetric db_deadlock 1700000000 clean_metric empty_storage))"
  have e0: "executeInsert_error (db_timeout_then_ok 0)
      = Some ''failed to begin transaction: timeout: context deadline exceeded''"
    and e1: "executeInsert_error (db_timeout_then_ok 1) = None"
    by (simp_all add: db_timeout_then_ok_def)
  have "0 < attempts ?T" using c[THEN conjunct1] by simp
  then have "Suc 0 < attempts ?T"
    using c[THEN conjunct2, THEN conjunct2, THEN conjunct2, THEN conjunct2, THEN conjunct1,
        rule_format, of 0] e0 timeout_error_retryable
    by simp
  then have t: "attempts ?T = 2
      \<and> fst (ts_StoreMetric db_timeout_then_ok 1700000000 clean_metric empty_storage) = None"
    using c[THEN conjunct2, THEN conjunct2, THEN conjunct2, THEN conjunct2, THEN conjunct2,
        THEN conjunct2, THEN conjunct1, rule_format, of 1] e1
    by simp
  have ts: "sleeps ?T = [100]"
    using c[THEN conjunct2, THEN conjunct2, THEN conjunct1] t by (simp add: upt_rec)
  have "\<forall>k<3. \<exists>e. executeInsert_error (db_deadlock k) = Some e \<and> isRetryableError e"
    using deadlock_error_retryable by (simp add: db_deadlock_def)
  then have x: "attempts ?D = 3
      \<and> fst (ts_StoreMetric db_deadlock 1700000000 clean_metric empty_storage)
          = Some ''failed to store metric after 3 attempts''"
    by (rule d[THEN conjunct2, THEN conjunct2, THEN conjunct2, THEN conjunct2, THEN conjunct2,
        THEN conjunct2, THEN conjunct2, THEN conjunct1, THEN mp])
  have xs: "sleeps ?D = [100, 200]"
    using d[THEN conjunct2, THEN conjunct2, THEN conjunct1] x by (simp add: upt_rec)
  from t ts x xs show ?thesis by blast
qed

text \<open>
  Claim C7 as stated fails: an insert error that says "broken pipe" matches none of the
  five patterns the claim lists, and StoreMetric still makes three attempts on it.
\<close>

theorem C7_broken_pipe_counterexample:
  "attempts (fst (snd (ts_StoreMetric db_broken_pipe 1700000000 clean_metric empty_storage))) = 3
   \<and> executeInsert_error (db_broken_pipe 0)
        = Some ''insert failed: write tcp 10.0.0.5:5432: write: broken pipe''
   \<and> \<not> matches_any ''insert failed: write tcp 10.0.0.5:5432: write: broken pipe'' spec_retryable_class"
  by code_simp

subsection \<open>The subscriber's handler\<close>

lemma StoreMetric_effect:
  assumes "StoreMetric db now m st = (e, tr, st')"
  shows "metricsReceived st' = metricsReceived st \<and> metricsRejected st' = metricsRejected st
     \<and> metricsStored st' = metricsStored st \<and> (e \<noteq> None \<longrightarrow> persisted st' = persisted st)"
proof (cases "storageInstance st")
  case None
  then show ?thesis using assms by (auto simp: StoreMetric_def)
next
  case (Some s)
  obtain err tr1 s1 where r: "ts_StoreMetric db now m s = (err, tr1, s1)"
    by (cases "ts_StoreMetric db now m s") auto
  with assms Some have e: "err = e" and st': "st' = st\<lparr>storageInstance := Some s1\<rparr>"
    by (auto simp: StoreMetric_def)
  from store_loop_rows[OF r] e have "e \<noteq> None \<longrightarrow> rows s1 = rows s" by simp
  then show ?thesis using Some st' by (simp add: persisted_def)
qed

lemma persisted_counters [simp]:
  "persisted (st\<lparr>metricsReceived := a\<rparr>) = persisted st"
  "persisted (st\<lparr>metricsRejected := b\<rparr>) = persisted st"
  "persisted (st\<lparr>metricsStored := c\<rparr>) = persisted st"
  by (simp_all add: persisted_def)

lemma messageHandler_outcomes:
  assumes "messageHandler db now msg st = (out, st')"
  shows "(rejected_before_persist out \<longrightarrow>
            metricsRejected st' = metricsRejected st + 1 \<and> persisted st' = persisted st
            \<and> metricsStored st' = metricsStored st)
       \<and> (persist_failed out \<longrightarrow>
            metricsRejected st' = metricsRejected st \<and> persisted st' = persisted st
            \<and> metricsStored st' = metricsStored st)
       \<and> metricsReceived st' = metricsReceived st + 1"
  using assms
  by (auto simp: messageHandler_def Let_def reject_def
      split: option.splits if_splits prod.splits
      dest!: StoreMetric_effect)

lemma messageHandler2_outcomes:
  assumes "messageHandler2 db now msg st = (out, st')"
  shows "(rejected_before_persist out \<longrightarrow>
            metricsRejected st' = metricsRejected st + 1 \<and> persisted st' = persisted st
            \<and> metricsStored st' = metricsStored st)
       \<and> (persist_failed out \<longrightarrow>
            metricsRejected st' = metricsRejected st \<and> persisted st' = persisted st
            \<and> metricsStored st' = metricsStored st)
       \<and> metricsReceived st' = metricsReceived st + 1"
  using assms
  by (auto simp: messageHandler2_def Let_def reject_def
      split: option.splits if_splits prod.splits
      dest!: StoreMetric_effect)


lemma check_keys_contain_None:
  "check_keys_contain f ls = None \<Longrightarrow> kv \<in> set ls \<Longrightarrow> \<not> sublist f (ToLower (fst kv))"
  by (induction ls) (auto simp: strings_Contains_iff split: if_splits)

lemma check_forbidden_None:
  "check_forbidden fs ls = None \<Longrightarrow> f \<in> set fs \<Longrightarrow> kv \<in> set ls \<Longrightarrow>
     fst kv \<noteq> f \<and> \<not> sublist f (ToLower (fst kv))"
  by (induction fs) (auto split: if_splits option.splits dest: check_keys_contain_None)

lemma ToLower_keeps_char:
  assumes "lower_char a = a" and "a \<noteq> CHR 0xE2" and "a \<noteq> CHR 0x84" and "a \<noteq> CHR 0xAA"
    and "a \<noteq> CHR 0xC4" and "a \<noteq> CHR 0xB0"
  shows "a \<in> set v \<Longrightarrow> a \<in> set (ToLower v)"
proof (induction v rule: ToLower.induct)
  case 1
  then show ?case by simp
next
  case (2 c cs)
  show ?case
  proof (cases "c = CHR 0xE2 \<and> take 2 cs = [CHR 0x84, CHR 0xAA]")
    case True
    then have cs: "cs = [CHR 0x84, CHR 0xAA] @ drop 2 cs"
      by (metis append_take_drop_id)
    have "a \<in> set (drop 2 cs)"
      using "2.prems" True assms by (subst (asm) cs) auto
    then show ?thesis using "2.IH"(1) True by simp
  next
    case nk: False
    show ?thesis
    proof (cases "c = CHR 0xC4 \<and> take 1 cs = [CHR 0xB0]")
      case True
      then have cs: "cs = [CHR 0xB0] @ drop 1 cs"
        by (metis append_take_drop_id)
      have "a \<in> set (drop 1 cs)"
        using "2.prems" True assms by (subst (asm) cs) auto
      then show ?thesis using "2.IH"(2) True nk by simp
    next
      case False
      then show ?thesis using "2.IH"(3) "2.prems" nk assms(1) by auto
    qed
  qed
qed

lemma ToLower_keeps_at: "sublist ''@'' v \<Longrightarrow> sublist ''@'' (ToLower v)"
  using ToLower_keeps_char[of "CHR ''@''" v] by (simp add: sublist_single lower_char_def)

lemma ToLower_keeps_dot: "sublist ''.'' v \<Longrightarrow> sublist ''.'' (ToLower v)"
  using ToLower_keeps_char[of "CHR ''.''" v] by (simp add: sublist_single lower_char_def)

lemma ToLower_keeps_ssh: "prefix ''ssh-'' v \<Longrightarrow> prefix ''ssh-'' (ToLower v)"
  by (auto simp: prefix_def lower_char_def)

lemma ToLower_kelvin_sign:
  "ToLower [CHR ''S'', CHR ''S'', CHR ''H'', CHR ''_'', CHR 0xE2, CHR 0x84, CHR 0xAA, CHR ''E'', CHR ''Y'']
     = ''ssh_key''"
  by code_simp

lemma check_label_sizes_None:
  "check_label_sizes ls = None \<Longrightarrow> kv \<in> set ls \<Longrightarrow>
     \<not> (sublist ''@'' (snd kv) \<and> sublist ''.'' (snd kv)) \<and> \<not> prefix ''ssh-'' (snd kv)"
  by (induction ls)
     (auto simp: strings_Contains_iff HasPrefix_iff split: if_splits
       dest: ToLower_keeps_at ToLower_keeps_dot ToLower_keeps_ssh)

text \<open>
  A metric with a sensitive label never passes \<open>validateMetric\<close>, whatever the order in
  which the labels are visited.
\<close>

lemma validateMetric_sensitive:
  assumes "kv \<in> set (Labels m)" and "sensitive_label kv"
  shows "validateMetric m \<noteq> None"
proof
  assume v: "validateMetric m = None"
  then have f: "check_forbidden forbiddenKeys (Labels m) = None"
    and z: "check_label_sizes (Labels m) = None"
    by (auto simp: validateMetric_def split: if_splits option.splits)
  from check_forbidden_None[OF f _ assms(1)] check_label_sizes_None[OF z assms(1)] assms(2)
  show False by (auto simp: sensitive_label_def)
qed

lemma messageHandler_rejects_sensitive:
  assumes "Payload msg = Some m" and "kv \<in> set (Labels m)" and "sensitive_label kv"
  shows "rejected_before_persist (fst (messageHandler db now msg st))
       \<and> metricsRejected (snd (messageHandler db now msg st)) = metricsRejected st + 1
       \<and> persisted (snd (messageHandler db now msg st)) = persisted st"
proof -
  have "validateMetric m \<noteq> None" using assms validateMetric_sensitive by blast
  then have "rejected_before_persist (fst (messageHandler db now msg st))"
    using assms(1) by (auto simp: messageHandler_def Let_def split: option.splits)
  then show ?thesis
    using messageHandler_outcomes[of db now msg st] by (cases "messageHandler db now msg st") auto
qed

text \<open>
  Claim C3. The handler of mqtt/subscriber.go does what the claim says (lemma
  \<open>messageHandler_rejects_sensitive\<close> above); the second handler of the sources does not:
  on the specification's message with the label \<open>email\<close> = \<open>a@b.c\<close> it stores the metric
  and leaves the rejected counter at zero.
\<close>

theorem C3_second_handler_stores_email_label:
  "fst (messageHandler2 db_ok 1700000000 message_with_email_label collector_with_storage) = Stored
   \<and> metricsRejected (snd (messageHandler2 db_ok 1700000000 message_with_email_label collector_with_storage)) = 0
   \<and> map sm_Labels (persisted (snd (messageHandler2 db_ok 1700000000 message_with_email_label collector_with_storage)))
       = [[(''email'', ''a@b.c'')]]
   \<and> sensitive_label (''email'', ''a@b.c'')"
proof -
  have "sensitive_label (''email'', ''a@b.c'')"
    by (simp add: sensitive_label_def forbiddenKeys_def)
  moreover have "messageHandler2 db_ok 1700000000 message_with_email_label collector_with_storage
      = (Stored, \<lparr>metricsReceived = 1, metricsRejected = 0, metricsStored = 0,
           storageInstance = Some \<lparr>rows = [\<lparr>sm_Time = 1700000000, sm_Service = ''entry-hub'',
              sm_MetricName = ''x'', sm_MetricType = ''gauge'', sm_Value = 1,
              sm_Labels = [(''email'', ''a@b.c'')], sm_InsertedAt = 1700000000\<rparr>],
              ts_metricsStored = 1, ts_metricsFailures = 0\<rparr>\<rparr>)"
    by code_simp
  ultimately show ?thesis by (simp add: persisted_def)
qed

theorem C3_second_handler_stores_email_label_witness:
  "persisted (snd (messageHandler2 db_ok 1700000000 message_with_email_label collector_with_storage)) \<noteq> []"
  using C3_second_handler_stores_email_label by auto

lemma StoreMetric_result_counters:
  "fst (StoreMetric db now m (st\<lparr>metricsReceived := a\<rparr>)) = fst (StoreMetric db now m st)"
  by (simp add: StoreMetric_def split: option.splits prod.splits)

lemma messageHandler_step_fails:
  assumes "length (strings_Split (Topic msg) CHR ''/'') \<noteq> 2
     \<or> strings_Split (Topic msg) CHR ''/'' ! 0 \<noteq> ''metrics''
     \<or> (case Payload msg of
           None \<Rightarrow> True
         | Some m \<Rightarrow> Service m \<noteq> strings_Split (Topic msg) CHR ''/'' ! 1
               \<or> validateMetric m \<noteq> None
               \<or> Timestamp m \<le> 0 \<or> Timestamp m > now + 60)"
  shows "metricsRejected (snd (messageHandler db now msg st)) = metricsRejected st + 1
     \<and> persisted (snd (messageHandler db now msg st)) = persisted st
     \<and> metricsStored (snd (messageHandler db now msg st)) = metricsStored st"
  using assms
  by (auto simp: messageHandler_def Let_def reject_def split: option.splits)

lemma messageHandler2_step_fails:
  assumes "length (strings_Split (Topic msg) CHR ''/'') \<noteq> 2
     \<or> strings_Split (Topic msg) CHR ''/'' ! 0 \<noteq> ''metrics''
     \<or> (case Payload msg of
           None \<Rightarrow> True
         | Some m \<Rightarrow> Service m \<noteq> strings_Split (Topic msg) CHR ''/'' ! 1
               \<or> Timestamp m \<le> 0 \<or> Timestamp m > now + 60)"
  shows "metricsRejected (snd (messageHandler2 db now msg st)) = metricsRejected st + 1
     \<and> persisted (snd (messageHandler2 db now msg st)) = persisted st
     \<and> metricsStored (snd (messageHandler2 db now msg st)) = metricsStored st"
  using assms
  by (auto simp: messageHandler2_def Let_def reject_def split: option.splits)

lemma messageHandler_persist_fails:
  assumes "length (strings_Split (Topic msg) CHR ''/'') = 2"
    and "strings_Split (Topic msg) CHR ''/'' ! 0 = ''metrics''"
    and "Payload msg = Some m"
    and "Service m = strings_Split (Topic msg) CHR ''/'' ! 1"
    and "validateMetric m = None"
    and "0 < Timestamp m" and "Timestamp m \<le> now + 60"
    and "fst (StoreMetric db now m st) \<noteq> None"
  shows "metricsRejected (snd (messageHandler db now msg st)) = metricsRejected st
     \<and> persisted (snd (messageHandler db now msg st)) = persisted st
     \<and> metricsStored (snd (messageHandler db now msg st)) = metricsStored st"
proof -
  let ?st1 = "st\<lparr>metricsReceived := metricsReceived st + 1\<rparr>"
  obtain e tr st' where r: "StoreMetric db now m ?st1 = (e, tr, st')"
    by (cases "StoreMetric db now m ?st1") auto
  have "e \<noteq> None" using assms(8) r StoreMetric_result_counters[of db now m "metricsReceived st + 1" st]
    by simp
  then obtain x where e: "e = Some x" by auto
  have eff: "metricsRejected st' = metricsRejected st \<and> metricsStored st' = metricsStored st
      \<and> persisted st' = persisted st"
    using StoreMetric_effect[OF r] e by simp
  have "snd (messageHandler db now msg st) = st'"
    using assms(1-7) r e by (simp add: messageHandler_def Let_def)
  then show ?thesis using eff by simp
qed

lemma messageHandler2_persist_fails:
  assumes "length (strings_Split (Topic msg) CHR ''/'') = 2"
    and "strings_Split (Topic msg) CHR ''/'' ! 0 = ''metrics''"
    and "Payload msg = Some m"
    and "Service m = strings_Split (Topic msg) CHR ''/'' ! 1"
    and "0 < Timestamp m" and "Timestamp m \<le> now + 60"
    and "fst (StoreMetric db now m st) \<noteq> None"
  shows "metricsRejected (snd (messageHandler2 db now msg st)) = metricsRejected st
     \<and> persisted (snd (messageHandler2 db now msg st)) = persisted st
     \<and> metricsStored (snd (messageHandler2 db now msg st)) = metricsStored st"
proof -
  let ?st1 = "st\<lparr>metricsReceived := metricsReceived st + 1\<rparr>"
  obtain e tr st' where r: "StoreMetric db now m ?st1 = (e, tr, st')"
    by (cases "StoreMetric db now m ?st1") auto
  have "e \<noteq> None" using assms(7) r StoreMetric_result_counters[of db now m "metricsReceived st + 1" st]
    by simp
  then obtain x where e: "e = Some x" by auto
  have eff: "metricsRejected st' = metricsRejected st \<and> metricsStored st' = metricsStored st
      \<and> persisted st' = persisted st"
    using StoreMetric_effect[OF r] e by simp
  have "snd (messageHandler2 db now msg st) = st'"
    using assms(1-6) r e by (simp add: messageHandler2_def Let_def)
  then show ?thesis using eff by simp
qed

text \<open>
  Claim C8, amended. A message that fails the topic check, the deserialisation, the service
  match or the timestamp check (and, in the handler of mqtt/subscriber.go, the metric
  validation) makes the collector increment metricsRejected and persist nothing. A message
  that passes these checks and whose persist step fails (StoreMetric returns an error) is
  dropped as well, nothing is persisted and metricsStored keeps its value, but
  metricsRejected is not incremented. The first and third parts are about the handler of
  mqtt/subscriber.go, the second and fourth about the second handler of the sources, which
  has no validation step.
\<close>

theorem C8_rejected_counter_by_step:
  fixes db :: "nat \<Rightarrow> insert_outcome" and now :: int and msg :: mqtt_message and st :: collector
  defines "parts \<equiv> strings_Split (Topic msg) CHR ''/''"
  shows
    "((length parts \<noteq> 2 \<or> parts ! 0 \<noteq> ''metrics''
       \<or> (case Payload msg of
             None \<Rightarrow> True
           | Some m \<Rightarrow> Service m \<noteq> parts ! 1 \<or> validateMetric m \<noteq> None
                 \<or> Timestamp m \<le> 0 \<or> Timestamp m > now + 60))
      \<longrightarrow> metricsRejected (snd (messageHandler db now msg st)) = metricsRejected st + 1
          \<and> persisted (snd (messageHandler db now msg st)) = persisted st
          \<and> metricsStored (snd (messageHandler db now msg st)) = metricsStored st)
   \<and> ((length parts \<noteq> 2 \<or> parts ! 0 \<noteq> ''metrics''
       \<or> (case Payload msg of
             None \<Rightarrow> True
           | Some m \<Rightarrow> Service m \<noteq> parts ! 1 \<or> Timestamp m \<le> 0 \<or> Timestamp m > now + 60))
      \<longrightarrow> metricsRejected (snd (messageHandler2 db now msg st)) = metricsRejected st + 1
          \<and> persisted (snd (messageHandler2 db now msg st)) = persisted st
          \<and> metricsStored (snd (messageHandler2 db now msg st)) = metricsStored st)
   \<and> (\<forall>m. length parts = 2 \<and> parts ! 0 = ''metrics'' \<and> Payload msg = Some m
          \<and> Service m = parts ! 1 \<and> validateMetric m = None
          \<and> 0 < Timestamp m \<and> Timestamp m \<le> now + 60
          \<and> fst (StoreMetric db now m st) \<noteq> None
      \<longrightarrow> metricsRejected (snd (messageHandler db now msg st)) = metricsRejected st
          \<and> persisted (snd (messageHandler db now msg st)) = persisted st
          \<and> metricsStored (snd (messageHandler db now msg st)) = metricsStored st)
   \<and> (\<forall>m. length parts = 2 \<and> parts ! 0 = ''metrics'' \<and> Payload msg = Some m
          \<and> Service m = parts ! 1
          \<and> 0 < Timestamp m \<and> Timestamp m \<le> now + 60
          \<and> fst (StoreMetric db now m st) \<noteq> None
      \<longrightarrow> metricsRejected (snd (messageHandler2 db now msg st)) = metricsRejected st
          \<and> persisted (snd (messageHandler2 db now msg st)) = persisted st
          \<and> metricsStored (snd (messageHandler2 db now msg st)) = metricsStored st)"
  unfolding parts_def
  using messageHandler_step_fails[of msg now db st] messageHandler2_step_fails[of msg now db st]
    messageHandler_persist_fails[of msg _ now db st] messageHandler2_persist_fails[of msg _ now db st]
  by blast

lemma entry_hub_topic:
  "strings_Split ''metrics/entry-hub'' CHR ''/'' = [''metrics'', ''entry-hub'']"
  by simp

lemma email_label_fails_validation:
  "validateMetric metric_with_email_label = Some (ForbiddenLabelKey ''email'')"
  by code_simp

lemma clean_metric_passes_validation: "validateMetric clean_metric = None"
  by code_simp

lemma broken_pipe_persist_fails:
  "fst (StoreMetric db_broken_pipe 1700000000 clean_metric collector_with_storage)
     = Some ''failed to store metric after 3 attempts''"
  by code_simp

theorem C8_rejected_counter_by_step_witness:
  "metricsRejected (snd (messageHandler db_ok 1700000000 message_with_email_label collector_with_storage)) = 1
   \<and> persisted (snd (messageHandler db_ok 1700000000 message_with_email_label collector_with_storage)) = []
   \<and> metricsRejected (snd (messageHandler db_broken_pipe 1700000000 clean_message collector_with_storage)) = 0
   \<and> metricsRejected (snd (messageHandler2 db_broken_pipe 1700000000 clean_message collector_with_storage)) = 0
   \<and> persisted (snd (messageHandler2 db_broken_pipe 1700000000 clean_message collector_with_storage)) = []"
proof -
  note a = C8_rejected_counter_by_step[of message_with_email_label 1700000000 db_ok collector_with_storage]
  note b = C8_rejected_counter_by_step[of clean_message 1700000000 db_broken_pipe collector_with_storage]
  have z: "metricsRejected collector_with_storage = 0" "persisted collector_with_storage = []"
    by (simp_all add: collector_with_storage_def persisted_def)
  have t: "Topic message_with_email_label = ''metrics/entry-hub''"
      "Payload message_with_email_label = Some metric_with_email_label"
      "Topic clean_message = ''metrics/entry-hub''" "Payload clean_message = Some clean_metric"
    by (simp_all add: message_with_email_label_def clean_message_def)
  have c: "Service clean_metric = ''entry-hub''" "Timestamp clean_metric = 1700000000"
    by (simp_all add: clean_metric_def)
  have 1: "metricsRejected (snd (messageHandler db_ok 1700000000 message_with_email_label collector_with_storage)) = 1
     \<and> persisted (snd (messageHandler db_ok 1700000000 message_with_email_label collector_with_storage)) = []"
    using a[THEN conjunct1] by (simp add: t email_label_fails_validation z)
  have 2: "metricsRejected (snd (messageHandler db_broken_pipe 1700000000 clean_message collector_with_storage)) = 0"
    using b[THEN conjunct2, THEN conjunct2, THEN conjunct1, rule_format, of clean_metric]
    by (simp add: t c entry_hub_topic clean_metric_passes_validation broken_pipe_persist_fails z)
  have 3: "metricsRejected (snd (messageHandler2 db_broken_pipe 1700000000 clean_message collector_with_storage)) = 0
     \<and> persisted (snd (messageHandler2 db_broken_pipe 1700000000 clean_message collector_with_storage)) = []"
    using b[THEN conjunct2, THEN conjunct2, THEN conjunct2, rule_format, of clean_metric]
    by (simp add: t c entry_hub_topic broken_pipe_persist_fails z)
  from 1 2 3 show ?thesis by blast
qed

text \<open>
  Claim C8 as stated fails at the persist step: a message that passes every check and
  whose insert the database refuses leaves the rejected counter where it was.
\<close>

theorem C8_persist_failure_counterexample:
  "messageHandler db_rejects_row 1700000000 clean_message collector_with_storage
     = (FailedToStore ''entry-hub''
          ''non-retryable error storing metric: insert failed: ERROR: value too long for type character varying(100) (SQLSTATE 22001)'',
        \<lparr>metricsReceived = 1, metricsRejected = 0, metricsStored = 0,
         storageInstance = Some \<lparr>rows = [], ts_metricsStored = 0, ts_metricsFailures = 1\<rparr>\<rparr>)
   \<and> metricsRejected collector_with_storage = 0"
  by code_simp

subsection \<open>Quantiles of the latency buffer\<close>

text \<open>On a buffer that is sorted, a larger percentile gives a larger or equal value.\<close>

lemma calculatePercentile_mono_sorted:
  assumes "sorted values" and "p \<le> q"
  shows "calculatePercentile values p \<le> calculatePercentile values q"
proof (cases "values = []")
  case True
  then show ?thesis by (simp add: calculatePercentile_def)
next
  case False
  define n where "n = length values"
  have n: "0 < n" using False by (simp add: n_def)
  define i where "i = (if (n * p) div 100 \<ge> n then n - 1 else (n * p) div 100)"
  define j where "j = (if (n * q) div 100 \<ge> n then n - 1 else (n * q) div 100)"
  have "(n * p) div 100 \<le> (n * q) div 100"
    using assms(2) by (simp add: div_le_mono)
  then have ij: "i \<le> j" and j: "j < n" using n by (auto simp: i_def j_def)
  have "values ! i \<le> values ! j"
    using assms(1) ij j by (simp add: sorted_nth_mono n_def)
  moreover have "calculatePercentile values p = values ! i"
    using False by (simp add: calculatePercentile_def Let_def i_def n_def)
  moreover have "calculatePercentile values q = values ! j"
    using False by (simp add: calculatePercentile_def Let_def j_def n_def)
  ultimately show ?thesis by simp
qed

text \<open>
  Claim C4. The export reads the buffer in arrival order, without sorting it: after
  requests of 0 ms, 5 ms and 1 ms the exported quantiles are p50 = 5, p95 = 1 and p99 = 1,
  so p50 > p95.
\<close>

theorem C4_unsorted_quantiles:
  "recorded_0_5_1 = [0, 5, 1]
   \<and> export_quantiles recorded_0_5_1 = [(''0.5'', 5), (''0.95'', 1), (''0.99'', 1)]
   \<and> calculatePercentile recorded_0_5_1 95 < calculatePercentile recorded_0_5_1 50"
  by (simp add: recorded_0_5_1_def RecordRequestDuration_def export_quantiles_def
      calculatePercentile_def Let_def)

theorem C4_unsorted_quantiles_witness:
  "snd (export_quantiles recorded_0_5_1 ! 1) < snd (export_quantiles recorded_0_5_1 ! 0)"
  using C4_unsorted_quantiles by simp

subsection \<open>Email encryption round trip\<close>

lemma ValidateEncryptionKey_valid:
  assumes "length K = 32" and "\<exists>b \<in> set K. b \<noteq> CHR 0x00"
  shows "ValidateEncryptionKey K = None"
  using assms by (auto simp: ValidateEncryptionKey_def list_all_iff)

text \<open>
  Claim C6. Let the library keep its contracts: decoding undoes encoding for hex and for
  base64, GCM open undoes seal under a 32-byte key and a 12-byte nonce, and the key
  derivation returns a 32-byte key for a 16-byte salt. Then for every email, every master
  key of 32 bytes that are not all zero, and every 16 random salt bytes and 12 random
  nonce bytes, EncryptEmailSecure returns a pair, and DecryptEmailSecure on this pair and
  the same master key returns the email.
\<close>

theorem C6_encrypt_decrypt_roundtrip:
  assumes hex: "\<forall>b. hex_DecodeString lib (hex_EncodeToString lib b) = Inr b"
    and b64: "\<forall>b. base64_DecodeString lib (base64_EncodeToString lib b) = Inr b"
    and gcm: "\<forall>k n p. length k = 32 \<and> length n = 12 \<longrightarrow> gcm_Open lib k n (gcm_Seal lib k n p) = Inr p"
    and hkdf: "\<forall>s. length s = 16 \<longrightarrow>
                (\<exists>k. DeriveKey lib K s ''email-encryption-secure-v1'' 32 = Inr k \<and> length k = 32)"
    and key: "length K = 32" "\<exists>b \<in> set K. b \<noteq> CHR 0x00"
    and rnd: "length saltBytes = 16" "length nonce = 12"
  shows "\<exists>enc salt.
           EncryptEmailSecure lib (Inr saltBytes) (Inr nonce) e K = Inr (enc, salt)
           \<and> DecryptEmailSecure lib enc salt K = Inr e"
proof -
  have v: "ValidateEncryptionKey K = None" using key by (rule ValidateEncryptionKey_valid)
  obtain k where k: "DeriveKey lib K saltBytes ''email-encryption-secure-v1'' 32 = Inr k"
    and lk: "length k = 32"
    using hkdf rnd(1) by blast
  have c: "aes_NewCipher_error k = None" using lk by (simp add: aes_NewCipher_error_def)
  let ?ct = "nonce @ gcm_Seal lib k nonce e"
  have enc: "EncryptEmailSecure lib (Inr saltBytes) (Inr nonce) e K
      = Inr (base64_EncodeToString lib ?ct, hex_EncodeToString lib saltBytes)"
    by (simp add: EncryptEmailSecure_def v k c)
  have op: "gcm_Open lib k nonce (gcm_Seal lib k nonce e) = Inr e"
    using gcm lk rnd(2) by blast
  have dec: "DecryptEmailSecure lib (base64_EncodeToString lib ?ct) (hex_EncodeToString lib saltBytes) K
      = Inr e"
    using hex[rule_format, of saltBytes] b64[rule_format, of ?ct]
    by (simp add: DecryptEmailSecure_def v k c rnd(2) op)
  from enc dec show ?thesis by blast
qed

theorem C6_encrypt_decrypt_roundtrip_witness:
  "EncryptEmailSecure stand_in_lib (Inr example_salt) (Inr example_nonce) ''alice@example.com''
       example_master_key
     = Inr (''noncenonce12alice@example.com0123456789abcdef'', ''saltsaltsaltsalt'')
   \<and> DecryptEmailSecure stand_in_lib ''noncenonce12alice@example.com0123456789abcdef''
       ''saltsaltsaltsalt'' example_master_key = Inr ''alice@example.com''"
proof -
  have hex: "\<forall>b. hex_DecodeString stand_in_lib (hex_EncodeToString stand_in_lib b) = Inr b"
    and b64: "\<forall>b. base64_DecodeString stand_in_lib (base64_EncodeToString stand_in_lib b) = Inr b"
    by (simp_all add: stand_in_lib_def)
  have gcm: "\<forall>k n p. length k = 32 \<and> length n = 12 \<longrightarrow>
      gcm_Open stand_in_lib k n (gcm_Seal stand_in_lib k n p) = Inr p"
    by (simp add: stand_in_lib_def stand_in_open_def stand_in_tag_def)
  have hkdf: "\<forall>s. length s = 16 \<longrightarrow>
      (\<exists>k. DeriveKey stand_in_lib example_master_key s ''email-encryption-secure-v1'' 32 = Inr k
           \<and> length k = 32)"
    by (simp add: stand_in_lib_def example_master_key_def)
  have key: "length example_master_key = 32" "\<exists>b \<in> set example_master_key. b \<noteq> CHR 0x00"
    by (simp_all add: example_master_key_def)
  have rnd: "length example_salt = 16" "length example_nonce = 12"
    by (simp_all add: example_salt_def example_nonce_def)
  have e: "EncryptEmailSecure stand_in_lib (Inr example_salt) (Inr example_nonce) ''alice@example.com''
       example_master_key
     = Inr (''noncenonce12alice@example.com0123456789abcdef'', ''saltsaltsaltsalt'')"
    by code_simp
  from C6_encrypt_decrypt_roundtrip[OF hex b64 gcm hkdf key rnd, of "''alice@example.com''"] e
  show ?thesis by simp
qed

subsection \<open>Health of a collector without storage\<close>

text \<open>
  Claim C10. While the global storage instance is nil, the storage health check returns
  nil, a GET on the public health endpoint reports the database check as "healthy", and
  every call of StoreMetric returns the error "storage not initialized" and leaves the
  collector without any persisted row.
\<close>

theorem C10_nil_storage_reports_healthy:
  assumes "storageInstance st = None"
  shows "HealthCheck ping st = None
       \<and> database_check (HealthHandler ping ''GET'' st) = Some ''healthy''
       \<and> fst (StoreMetric db now metric st) = Some ''storage not initialized''
       \<and> snd (snd (StoreMetric db now metric st)) = st
       \<and> persisted st = []"
  using assms
  by (simp add: HealthCheck_def HealthHandler_def StoreMetric_def database_check_def
      persisted_def GetStatistics_def Let_def)

theorem C10_nil_storage_reports_healthy_witness:
  "storageInstance collector_without_storage = None
   \<and> HealthCheck None collector_without_storage = None
   \<and> database_check (HealthHandler None ''GET'' collector_without_storage) = Some ''healthy''
   \<and> fst (StoreMetric db_ok 1700000000 clean_metric collector_without_storage)
       = Some ''storage not initialized''"
  using C10_nil_storage_reports_healthy
    [of collector_without_storage None db_ok 1700000000 clean_metric]
  by (simp add: collector_without_storage_def)

end
